theory Spec2Isabelle
  imports Complex_Main "HOL-Library.Multiset"
begin

section \<open>GeoJSON data as the map component of \<open>SpainMap.tsx\<close> reads it\<close>

text \<open>
  A JavaScript \<open>number\<close> is modelled as a \<^typ>\<open>real\<close>: rounding and overflow of
  IEEE doubles are outside the model. A GeoJSON position is the array \<open>[lng, lat, ...]\<close>;
  a linear ring is an array of positions, a polygon an array of rings (the first one the
  outer ring), a multi-polygon an array of polygons.
\<close>

type_synonym position = "real list"
type_synonym ring = "position list"
type_synonym polygon = "ring list"

datatype geometry =
    Point position
  | MultiPoint "position list"
  | LineString "position list"
  | MultiLineString "position list list"
  | Polygon polygon
  | MultiPolygon "polygon list"
  | GeometryCollection "geometry list"

text \<open>The values a property bag parsed from JSON can hold.\<close>

datatype jsvalue =
    JString string
  | JNumber real
  | JBoolean bool
  | JNull
  | JArray "jsvalue list"
  | JObject "(string \<times> jsvalue) list"

text \<open>
  \<open>Feature<Geometry>\<close>: \<open>properties\<close> is an object or \<open>null\<close>, \<open>geometry\<close> is never
  \<open>null\<close> by its type. The other members of a feature (\<open>type\<close>, \<open>id\<close>, \<open>bbox\<close>) are the
  extension part of the record, which a record update keeps as the spread \<open>...feature\<close> does.
\<close>

record feature =
  properties :: "(string \<rightharpoonup> jsvalue) option"
  geometry :: geometry

record featureCollection =
  features :: "feature list"

subsection \<open>Name resolution\<close>

text \<open>
  \<^verbatim>\<open>
  function getStringProperty(feature, key): string | null {
    const value = feature.properties?.[key];
    return typeof value === "string" ? value : null;
  }\<close>
\<close>

definition getStringProperty :: "'a feature_scheme \<Rightarrow> string \<Rightarrow> string option" where
  "getStringProperty feature key =
     (case properties feature of
        None \<Rightarrow> None
      | Some props \<Rightarrow>
          (case props key of
             Some (JString v) \<Rightarrow> Some v
           | _ \<Rightarrow> None))"

text \<open>
  \<^verbatim>\<open>
  function getRawProvinceName(feature): string {
    return (
      getStringProperty(feature, "name") ??
      getStringProperty(feature, "NAME") ??
      getStringProperty(feature, "provincia") ??
      "Desconocida"
    );
  }\<close>
\<close>

definition getRawProvinceName :: "'a feature_scheme \<Rightarrow> string" where
  "getRawProvinceName feature =
     (case getStringProperty feature ''name'' of
        Some v \<Rightarrow> v
      | None \<Rightarrow>
          (case getStringProperty feature ''NAME'' of
             Some v \<Rightarrow> v
           | None \<Rightarrow>
               (case getStringProperty feature ''provincia'' of
                  Some v \<Rightarrow> v
                | None \<Rightarrow> ''Desconocida'')))"

definition getProvinceName :: "'a feature_scheme \<Rightarrow> string" where
  "getProvinceName feature =
     (case getStringProperty feature ''mapProvinceName'' of
        Some v \<Rightarrow> v
      | None \<Rightarrow> getRawProvinceName feature)"

definition getFeatureLabel :: "'a feature_scheme \<Rightarrow> string" where
  "getFeatureLabel feature =
     (case getStringProperty feature ''mapDisplayName'' of
        Some v \<Rightarrow> v
      | None \<Rightarrow> getRawProvinceName feature)"



section \<open>Splitting archipelago provinces\<close>

record IslandAnchor =
  name :: string
  lat :: real
  lng :: real

text \<open>
  \<open>ISLAND_SPLIT_ANCHORS\<close> is an object literal indexed by the raw province name. Reading
  \<open>ISLAND_SPLIT_ANCHORS[provinceName]\<close> yields one of its three own members, or a member
  inherited from \<open>Object.prototype\<close> (a function or the prototype object: truthy, and
  without a \<open>forEach\<close> method), or \<open>undefined\<close>.
\<close>

datatype anchors_member =
    Undefined
  | AnchorArray "IslandAnchor list"
  | InheritedMember

definition Object_prototype_keys :: "string list" where
  "Object_prototype_keys =
     [''constructor'', ''__defineGetter__'', ''__defineSetter__'', ''hasOwnProperty'',
      ''__lookupGetter__'', ''__lookupSetter__'', ''isPrototypeOf'',
      ''propertyIsEnumerable'', ''toString'', ''valueOf'', ''__proto__'',
      ''toLocaleString'']"

definition balearic_anchors :: "IslandAnchor list" where
  "balearic_anchors =
     [\<lparr>name = ''Mallorca'', lat = 39.6, lng = 2.9\<rparr>,
      \<lparr>name = ''Menorca'', lat = 39.95, lng = 4.1\<rparr>,
      \<lparr>name = ''Ibiza'', lat = 38.98, lng = 1.43\<rparr>,
      \<lparr>name = ''Formentera'', lat = 38.7, lng = 1.45\<rparr>]"

definition las_palmas_anchors :: "IslandAnchor list" where
  "las_palmas_anchors =
     [\<lparr>name = ''Lanzarote'', lat = 29.03, lng = - 13.63\<rparr>,
      \<lparr>name = ''Fuerteventura'', lat = 28.36, lng = - 14.05\<rparr>,
      \<lparr>name = ''Gran Canaria'', lat = 27.95, lng = - 15.6\<rparr>]"

definition tenerife_anchors :: "IslandAnchor list" where
  "tenerife_anchors =
     [\<lparr>name = ''Tenerife'', lat = 28.29, lng = - 16.62\<rparr>,
      \<lparr>name = ''La Palma'', lat = 28.69, lng = - 17.86\<rparr>,
      \<lparr>name = ''La Gomera'', lat = 28.11, lng = - 17.23\<rparr>,
      \<lparr>name = ''El Hierro'', lat = 27.73, lng = - 18.03\<rparr>]"

definition ISLAND_SPLIT_ANCHORS :: "string \<Rightarrow> anchors_member" where
  "ISLAND_SPLIT_ANCHORS key =
     (if key = ''Illes Balears'' then AnchorArray balearic_anchors
      else if key = ''Las Palmas'' then AnchorArray las_palmas_anchors
      else if key = ''Santa Cruz De Tenerife'' then AnchorArray tenerife_anchors
      else if key \<in> set Object_prototype_keys then InheritedMember
      else Undefined)"

text \<open>
  \<^verbatim>\<open>
  function nearestAnchor(lat, lng, anchors): IslandAnchor {
    let best = anchors[0];
    let bestDistance = Number.POSITIVE_INFINITY;
    for (const anchor of anchors) {
      const latDiff = anchor.lat - lat;
      const lngDiff = anchor.lng - lng;
      const distance = latDiff * latDiff + lngDiff * lngDiff;
      if (distance < bestDistance) { best = anchor; bestDistance = distance; }
    }
    return best;
  }\<close>
  \<open>bestDistance\<close> is a \<^typ>\<open>real option\<close> with \<open>None\<close> for \<open>+Infinity\<close>; \<open>best\<close> is
  \<open>None\<close> for the \<open>undefined\<close> that \<open>anchors[0]\<close> is on an empty array.
\<close>

definition squaredDistance :: "real \<Rightarrow> real \<Rightarrow> IslandAnchor \<Rightarrow> real" where
  "squaredDistance plat plng anchor =
     (let latDiff = lat anchor - plat; lngDiff = lng anchor - plng
      in latDiff * latDiff + lngDiff * lngDiff)"

definition less_than_best :: "real \<Rightarrow> real option \<Rightarrow> bool" where
  "less_than_best distance bestDistance =
     (case bestDistance of None \<Rightarrow> True | Some b \<Rightarrow> distance < b)"

fun nearestAnchor_loop ::
  "real \<Rightarrow> real \<Rightarrow> IslandAnchor list \<Rightarrow> IslandAnchor option \<Rightarrow> real option \<Rightarrow> IslandAnchor option"
where
  "nearestAnchor_loop plat plng [] best bestDistance = best"
| "nearestAnchor_loop plat plng (anchor # rest) best bestDistance =
     (let distance = squaredDistance plat plng anchor
      in if less_than_best distance bestDistance
         then nearestAnchor_loop plat plng rest (Some anchor) (Some distance)
         else nearestAnchor_loop plat plng rest best bestDistance)"

definition first_anchor :: "IslandAnchor list \<Rightarrow> IslandAnchor option" where
  "first_anchor anchors = (case anchors of [] \<Rightarrow> None | a # _ \<Rightarrow> Some a)"

definition nearestAnchor :: "real \<Rightarrow> real \<Rightarrow> IslandAnchor list \<Rightarrow> IslandAnchor option" where
  "nearestAnchor plat plng anchors = nearestAnchor_loop plat plng anchors (first_anchor anchors) None"

text \<open>
  \<^verbatim>\<open>
  function polygonCentroid(polygon: number[][][]): [number, number] {
    const ring = polygon[0] ?? [];
    if (ring.length === 0) return [0, 0];
    let lngSum = 0;
    let latSum = 0;
    for (const coord of ring) {
      lngSum += coord[0] ?? 0;
      latSum += coord[1] ?? 0;
    }
    return [latSum / ring.length, lngSum / ring.length];
  }\<close>
  A division by zero does not raise in JavaScript: it yields \<open>NaN\<close> or an infinity, which
  is no real number. \<open>divide_by_length\<close> makes that outcome the value \<open>None\<close>.
\<close>

definition coordinate :: "position \<Rightarrow> nat \<Rightarrow> real" where
  "coordinate coord i = (if i < length coord then coord ! i else 0)"

fun ringSums :: "ring \<Rightarrow> real \<Rightarrow> real \<Rightarrow> real \<times> real" where
  "ringSums [] lngSum latSum = (lngSum, latSum)"
| "ringSums (coord # rest) lngSum latSum =
     ringSums rest (lngSum + coordinate coord 0) (latSum + coordinate coord 1)"

definition divide_by_length :: "real \<Rightarrow> nat \<Rightarrow> real option" where
  "divide_by_length x n = (if n = 0 then None else Some (x / real n))"

definition first_ring :: "polygon \<Rightarrow> ring" where
  "first_ring polygon = (case polygon of [] \<Rightarrow> [] | r # _ \<Rightarrow> r)"

definition polygonCentroid :: "polygon \<Rightarrow> (real \<times> real) option" where
  "polygonCentroid polygon =
     (let ring = first_ring polygon
      in if length ring = 0 then Some (0, 0)
         else (case ringSums ring 0 0 of
                 (lngSum, latSum) \<Rightarrow>
                   (case (divide_by_length latSum (length ring),
                          divide_by_length lngSum (length ring)) of
                      (Some plat, Some plng) \<Rightarrow> Some (plat, plng)
                    | _ \<Rightarrow> None)))"

text \<open>
  The body of \<open>splitIslandFeature\<close>, loop by loop.
  \<^verbatim>\<open>
    const groups = new Map<string, number[][][][]>();
    anchors.forEach((anchor) => groups.set(anchor.name, []));
    for (const polygon of feature.geometry.coordinates) {
      const [lat, lng] = polygonCentroid(polygon);
      const anchor = nearestAnchor(lat, lng, anchors);
      groups.get(anchor.name)?.push(polygon);
    }\<close>
  With a centroid that is not a pair of reals every squared distance is \<open>NaN\<close> or
  \<open>Infinity\<close>, the test \<open>distance < bestDistance\<close> fails for every anchor and
  \<open>nearestAnchor\<close> returns \<open>anchors[0]\<close>. Reading \<open>anchor.name\<close> of \<open>undefined\<close>
  raises a \<open>TypeError\<close>.
\<close>

datatype js_error = TypeError

definition initGroups :: "IslandAnchor list \<Rightarrow> (string \<rightharpoonup> polygon list)" where
  "initGroups anchors = fold (\<lambda>anchor groups. groups(name anchor \<mapsto> [])) anchors Map.empty"

definition pieceAnchor :: "IslandAnchor list \<Rightarrow> polygon \<Rightarrow> IslandAnchor option" where
  "pieceAnchor anchors polygon =
     (case polygonCentroid polygon of
        Some (plat, plng) \<Rightarrow> nearestAnchor plat plng anchors
      | None \<Rightarrow> first_anchor anchors)"

definition pushPolygon ::
  "(string \<rightharpoonup> polygon list) \<Rightarrow> string \<Rightarrow> polygon \<Rightarrow> (string \<rightharpoonup> polygon list)" where
  "pushPolygon groups key polygon =
     (case groups key of
        None \<Rightarrow> groups
      | Some ps \<Rightarrow> groups(key \<mapsto> ps @ [polygon]))"

fun assignPolygons ::
  "IslandAnchor list \<Rightarrow> polygon list \<Rightarrow> (string \<rightharpoonup> polygon list)
     \<Rightarrow> js_error + (string \<rightharpoonup> polygon list)"
where
  "assignPolygons anchors [] groups = Inr groups"
| "assignPolygons anchors (polygon # rest) groups =
     (case pieceAnchor anchors polygon of
        None \<Rightarrow> Inl TypeError
      | Some anchor \<Rightarrow> assignPolygons anchors rest (pushPolygon groups (name anchor) polygon))"

text \<open>
  \<^verbatim>\<open>
    const splitFeatures = [];
    for (const anchor of anchors) {
      const coordinates = groups.get(anchor.name);
      if (!coordinates || coordinates.length === 0) continue;
      splitFeatures.push({
        ...feature,
        properties: { ...(feature.properties ?? {}),
                      mapProvinceName: provinceName, mapDisplayName: anchor.name },
        geometry: { type: "MultiPolygon", coordinates },
      });
    }\<close>
\<close>

definition subFeature ::
  "'a feature_scheme \<Rightarrow> string \<Rightarrow> string \<Rightarrow> polygon list \<Rightarrow> 'a feature_scheme" where
  "subFeature feature provinceName anchorName coordinates =
     feature\<lparr>properties :=
               Some ((case properties feature of None \<Rightarrow> Map.empty | Some props \<Rightarrow> props)
                     (''mapProvinceName'' \<mapsto> JString provinceName,
                      ''mapDisplayName'' \<mapsto> JString anchorName)),
             geometry := MultiPolygon coordinates\<rparr>"

fun emitFeatures ::
  "'a feature_scheme \<Rightarrow> string \<Rightarrow> (string \<rightharpoonup> polygon list) \<Rightarrow> IslandAnchor list
     \<Rightarrow> 'a feature_scheme list"
where
  "emitFeatures feature provinceName groups [] = []"
| "emitFeatures feature provinceName groups (anchor # rest) =
     (case groups (name anchor) of
        None \<Rightarrow> emitFeatures feature provinceName groups rest
      | Some coordinates \<Rightarrow>
          if length coordinates = 0 then emitFeatures feature provinceName groups rest
          else subFeature feature provinceName (name anchor) coordinates
                 # emitFeatures feature provinceName groups rest)"

text \<open>
  \<^verbatim>\<open>
  function splitIslandFeature(feature): Feature<Geometry>[] {
    const provinceName = getRawProvinceName(feature);
    const anchors = ISLAND_SPLIT_ANCHORS[provinceName];
    if (!anchors || feature.geometry.type !== "MultiPolygon") return [feature];
    ... groups, splitFeatures ...
    return splitFeatures.length > 0 ? splitFeatures : [feature];
  }\<close>
  A truthy \<open>anchors\<close> that is not an array has no \<open>forEach\<close>: the call raises a
  \<open>TypeError\<close>.
\<close>

definition multiPolygonCoordinates :: "geometry \<Rightarrow> polygon list option" where
  "multiPolygonCoordinates g = (case g of MultiPolygon coordinates \<Rightarrow> Some coordinates | _ \<Rightarrow> None)"

definition splitIslandFeature :: "'a feature_scheme \<Rightarrow> js_error + 'a feature_scheme list" where
  "splitIslandFeature feature =
     (let provinceName = getRawProvinceName feature;
          anchors = ISLAND_SPLIT_ANCHORS provinceName
      in case (anchors, multiPolygonCoordinates (geometry feature)) of
           (Undefined, _) \<Rightarrow> Inr [feature]
         | (_, None) \<Rightarrow> Inr [feature]
         | (InheritedMember, Some _) \<Rightarrow> Inl TypeError
         | (AnchorArray anchorList, Some coordinates) \<Rightarrow>
             (case assignPolygons anchorList coordinates (initGroups anchorList) of
                Inl e \<Rightarrow> Inl e
              | Inr groups \<Rightarrow>
                  (let splitFeatures = emitFeatures feature provinceName groups anchorList
                   in Inr (if length splitFeatures > 0 then splitFeatures else [feature]))))"

text \<open>
  \<^verbatim>\<open>
  function splitArchipelagos(data) {
    return { ...data, features: data.features.flatMap(splitIslandFeature) };
  }\<close>
  An exception of the callback ends \<open>flatMap\<close>.
\<close>

fun flatMap :: "('a \<Rightarrow> js_error + 'b list) \<Rightarrow> 'a list \<Rightarrow> js_error + 'b list" where
  "flatMap f [] = Inr []"
| "flatMap f (x # xs) =
     (case f x of
        Inl e \<Rightarrow> Inl e
      | Inr ys \<Rightarrow> (case flatMap f xs of Inl e \<Rightarrow> Inl e | Inr zs \<Rightarrow> Inr (ys @ zs)))"

definition splitArchipelagos ::
  "'a featureCollection_scheme \<Rightarrow> js_error + 'a featureCollection_scheme" where
  "splitArchipelagos data =
     (case flatMap splitIslandFeature (features data) of
        Inl e \<Rightarrow> Inl e
      | Inr fs \<Rightarrow> Inr (data\<lparr>features := fs\<rparr>))"

text \<open>Measures of a geometry: its polygon pieces and its number of vertices.\<close>

fun pieces :: "geometry \<Rightarrow> polygon list" where
  "pieces (Polygon p) = [p]"
| "pieces (MultiPolygon ps) = ps"
| "pieces (GeometryCollection gs) = concat (map pieces gs)"
| "pieces _ = []"

definition polygonVertices :: "polygon \<Rightarrow> nat" where
  "polygonVertices p = sum_list (map length p)"

fun vertexCount :: "geometry \<Rightarrow> nat" where
  "vertexCount (Point p) = 1"
| "vertexCount (MultiPoint ps) = length ps"
| "vertexCount (LineString ps) = length ps"
| "vertexCount (MultiLineString ls) = sum_list (map length ls)"
| "vertexCount (Polygon p) = polygonVertices p"
| "vertexCount (MultiPolygon ps) = sum_list (map polygonVertices ps)"
| "vertexCount (GeometryCollection gs) = sum_list (map vertexCount gs)"

definition allPieces :: "'a feature_scheme list \<Rightarrow> polygon list" where
  "allPieces fs = concat (map (\<lambda>f. pieces (geometry f)) fs)"

definition totalVertices :: "'a feature_scheme list \<Rightarrow> nat" where
  "totalVertices fs = sum_list (map (\<lambda>f. vertexCount (geometry f)) fs)"

text \<open>
  Which anchor a piece goes to, and the pieces an anchor receives, as the specification
  words the grouping. They are compared with the groups the loops above compute.
\<close>

definition anchorPieces :: "IslandAnchor list \<Rightarrow> polygon list \<Rightarrow> IslandAnchor \<Rightarrow> polygon list" where
  "anchorPieces anchors coordinates anchor =
     filter (\<lambda>polygon. pieceAnchor anchors polygon = Some anchor) coordinates"

definition receivedPiece :: "IslandAnchor list \<Rightarrow> polygon list \<Rightarrow> IslandAnchor \<Rightarrow> bool" where
  "receivedPiece anchors coordinates anchor \<longleftrightarrow> anchorPieces anchors coordinates anchor \<noteq> []"

definition holdsPiece :: "polygon \<Rightarrow> 'a feature_scheme \<Rightarrow> bool" where
  "holdsPiece polygon feature \<longleftrightarrow> polygon \<in> set (pieces (geometry feature))"

section \<open>Centroids and area scores of regions\<close>

text \<open>
  \<open>featureCentroid\<close> and \<open>featureAreaScore\<close> read the bounds Leaflet computes for a
  feature, \<open>L.geoJSON(feature).getBounds()\<close>. Leaflet is not part of the repository: the
  bounds are the parameter \<open>getBounds\<close>.
\<close>

record latLngBounds =
  south :: real
  west :: real
  north :: real
  east :: real

text \<open>
  Modelled from the spec: \<open>getCenter\<close> of Leaflet's \<open>LatLngBounds\<close>, which the repository
  calls and does not define. The specification has it as the midpoint of the minimal and
  maximal latitude and longitude.
\<close>

definition getCenter :: "latLngBounds \<Rightarrow> real \<times> real" where
  "getCenter bounds = ((south bounds + north bounds) / 2, (west bounds + east bounds) / 2)"

definition featureCentroid :: "('a feature_scheme \<Rightarrow> latLngBounds) \<Rightarrow> 'a feature_scheme \<Rightarrow> real \<times> real" where
  "featureCentroid getBounds feature =
     (let bounds = getBounds feature; c = getCenter bounds in (fst c, snd c))"

definition featureAreaScore :: "('a feature_scheme \<Rightarrow> latLngBounds) \<Rightarrow> 'a feature_scheme \<Rightarrow> real" where
  "featureAreaScore getBounds feature =
     (let bounds = getBounds feature
      in \<bar>north bounds - south bounds\<bar> * \<bar>east bounds - west bounds\<bar>)"

text \<open>
  \<^verbatim>\<open>
  const provinceCentroids = useMemo(() => {
    if (!geoData) return new Map();
    const map = new Map<string, { center; score }>();
    for (const feature of geoData.features) {
      const provinceName = getProvinceName(feature);
      const center = featureCentroid(feature);
      const score = featureAreaScore(feature);
      const current = map.get(provinceName);
      if (!current || score > current.score) map.set(provinceName, { center, score });
    }
    return new Map(Array.from(map.entries()).map(([n, value]) => [n, value.center]));
  }, [geoData]);\<close>
\<close>

record measurement =
  center :: "real \<times> real"
  score :: real

definition measureStep ::
  "('a feature_scheme \<Rightarrow> latLngBounds) \<Rightarrow> 'a feature_scheme \<Rightarrow> (string \<rightharpoonup> measurement)
     \<Rightarrow> (string \<rightharpoonup> measurement)" where
  "measureStep getBounds feature m =
     (let provinceName = getProvinceName feature;
          c = featureCentroid getBounds feature;
          sc = featureAreaScore getBounds feature
      in case m provinceName of
           None \<Rightarrow> m(provinceName \<mapsto> \<lparr>center = c, score = sc\<rparr>)
         | Some current \<Rightarrow>
             if sc > score current then m(provinceName \<mapsto> \<lparr>center = c, score = sc\<rparr>) else m)"

definition measurements ::
  "('a feature_scheme \<Rightarrow> latLngBounds) \<Rightarrow> 'a feature_scheme list \<Rightarrow> (string \<rightharpoonup> measurement)" where
  "measurements getBounds fs = fold (measureStep getBounds) fs Map.empty"

definition provinceCentroids ::
  "(feature \<Rightarrow> latLngBounds) \<Rightarrow> featureCollection option \<Rightarrow> (string \<rightharpoonup> real \<times> real)" where
  "provinceCentroids getBounds geoData =
     (case geoData of
        None \<Rightarrow> Map.empty
      | Some data \<Rightarrow> (\<lambda>provinceName. map_option center (measurements getBounds (features data) provinceName)))"

text \<open>
  The deduplication rule in the specification's words: of the regions of one name the one
  kept has a strictly greater score than every region of the name before it, and no
  region of the name after it has a greater score than it.
\<close>

definition firstLargest ::
  "('a feature_scheme \<Rightarrow> latLngBounds) \<Rightarrow> string \<Rightarrow> 'a feature_scheme list \<Rightarrow> 'a feature_scheme \<Rightarrow> bool" where
  "firstLargest gb provinceName fs f \<longleftrightarrow>
     (\<exists>pre post. fs = pre @ f # post \<and> getProvinceName f = provinceName \<and>
        (\<forall>g \<in> set pre. getProvinceName g = provinceName \<longrightarrow>
           featureAreaScore gb g < featureAreaScore gb f) \<and>
        (\<forall>g \<in> set post. getProvinceName g = provinceName \<longrightarrow>
           featureAreaScore gb g \<le> featureAreaScore gb f))"

section \<open>Profiles and avatar markers\<close>

text \<open>
  Modelled from the spec: the type \<open>ProfileWithProvince\<close> builds on the generated database
  types, which are not among the sources. A profile has an identifier and an optional
  province record with the province's name; the fields the markers do not read are left out.
\<close>

record provincia =
  nombre :: string

record profile =
  profile_id :: string
  provincias :: "provincia option"

text \<open>
  A JavaScript \<open>Map\<close> that is iterated is an association list in insertion order:
  \<open>set\<close> on a key that is present keeps the key's place.
\<close>

fun Map_set :: "('k \<times> 'v) list \<Rightarrow> 'k \<Rightarrow> 'v \<Rightarrow> ('k \<times> 'v) list" where
  "Map_set [] k v = [(k, v)]"
| "Map_set ((k', v') # rest) k v =
     (if k' = k then (k, v) # rest else (k', v') # Map_set rest k v)"

text \<open>
  \<^verbatim>\<open>
  const profilesByProvince = useMemo(() => {
    const map = new Map<string, ProfileWithProvince[]>();
    for (const p of profiles) {
      const provName = p.provincias?.nombre;
      if (!provName) continue;
      const arr = map.get(provName) ?? [];
      arr.push(p);
      map.set(provName, arr);
    }
    return map;
  }, [profiles]);\<close>
\<close>

definition provName_of :: "profile \<Rightarrow> string option" where
  "provName_of p = (case provincias p of None \<Rightarrow> None | Some pr \<Rightarrow> Some (nombre pr))"

definition groupStep :: "profile \<Rightarrow> (string \<times> profile list) list \<Rightarrow> (string \<times> profile list) list" where
  "groupStep p m =
     (case provName_of p of
        None \<Rightarrow> m
      | Some provName \<Rightarrow>
          if provName = [] then m
          else (let arr = (case map_of m provName of None \<Rightarrow> [] | Some a \<Rightarrow> a)
                in Map_set m provName (arr @ [p])))"

definition profilesByProvince :: "profile list \<Rightarrow> (string \<times> profile list) list" where
  "profilesByProvince profiles = fold groupStep profiles []"

definition occupiedProvinces :: "profile list \<Rightarrow> string set" where
  "occupiedProvinces profiles = set (map fst (profilesByProvince profiles))"

text \<open>
  \<^verbatim>\<open>
  const avatarMarkers = useMemo(() => {
    const markers = [];
    for (const [provName, provProfiles] of profilesByProvince) {
      const center = provinceCentroids.get(provName);
      if (!center) continue;
      const count = provProfiles.length;
      provProfiles.forEach((profile, i) => {
        let lat = center[0];
        let lng = center[1];
        if (count > 1) {
          const angle = (2 * Math.PI * i) / count;
          const radius = Math.min(0.15 + count * 0.02, 0.5);
          lat += Math.cos(angle) * radius;
          lng += Math.sin(angle) * radius;
        }
        markers.push({ key: profile.id, position: [lat, lng], profile });
      });
    }
    return markers;
  }, [profilesByProvince, provinceCentroids]);\<close>
\<close>

record marker =
  key :: string
  position :: "real \<times> real"
  marker_profile :: profile

definition markerPosition :: "real \<times> real \<Rightarrow> nat \<Rightarrow> nat \<Rightarrow> real \<times> real" where
  "markerPosition c cnt i =
     (if cnt > 1
      then (let angle = (2 * pi * real i) / real cnt;
                radius = min (0.15 + real cnt * 0.02) 0.5
            in (fst c + cos angle * radius, snd c + sin angle * radius))
      else (fst c, snd c))"

definition placeProfiles :: "real \<times> real \<Rightarrow> profile list \<Rightarrow> marker list" where
  "placeProfiles c provProfiles =
     map (\<lambda>(i, p). \<lparr>key = profile_id p,
                     position = markerPosition c (length provProfiles) i,
                     marker_profile = p\<rparr>)
         (enumerate 0 provProfiles)"

fun markersOf :: "(string \<rightharpoonup> real \<times> real) \<Rightarrow> (string \<times> profile list) list \<Rightarrow> marker list" where
  "markersOf centroids [] = []"
| "markersOf centroids ((provName, provProfiles) # rest) =
     (case centroids provName of
        None \<Rightarrow> markersOf centroids rest
      | Some c \<Rightarrow> placeProfiles c provProfiles @ markersOf centroids rest)"

definition avatarMarkers ::
  "(feature \<Rightarrow> latLngBounds) \<Rightarrow> profile list \<Rightarrow> featureCollection option \<Rightarrow> marker list" where
  "avatarMarkers getBounds profiles geoData =
     markersOf (provinceCentroids getBounds geoData) (profilesByProvince profiles)"


text \<open>Whether a profile is shown: it names a province, and the province has a centroid.\<close>

definition placeable :: "(string \<rightharpoonup> real \<times> real) \<Rightarrow> profile \<Rightarrow> bool" where
  "placeable centroids p =
     (case provName_of p of
        None \<Rightarrow> False
      | Some provName \<Rightarrow> provName \<noteq> [] \<and> centroids provName \<noteq> None)"

text \<open>
  A profile that names a province, and a grouping in which every profile of a group names
  the group's province.
\<close>

definition named_profile :: "profile \<Rightarrow> bool" where
  "named_profile p \<longleftrightarrow> (case provName_of p of None \<Rightarrow> False | Some n \<Rightarrow> n \<noteq> [])"

definition wellGrouped :: "(string \<times> profile list) list \<Rightarrow> bool" where
  "wellGrouped m \<longleftrightarrow> (\<forall>(k, ps) \<in> set m. \<forall>p \<in> set ps. provName_of p = Some k \<and> k \<noteq> [])"

section \<open>Styles of the region layers\<close>


















section \<open>Example inputs\<close>

text \<open>A small triangle, as a closed ring of four positions \<open>[lng, lat]\<close>.\<close>

definition triangle :: "real \<Rightarrow> real \<Rightarrow> polygon" where
  "triangle x y = [[[x, y], [x + 0.1, y], [x, y + 0.1], [x, y]]]"

definition named :: "string \<Rightarrow> geometry \<Rightarrow> feature" where
  "named n g = \<lparr>properties = Some [''name'' \<mapsto> JString n], geometry = g\<rparr>"

definition constructor_feature :: feature where
  "constructor_feature = named ''constructor'' (MultiPolygon [triangle 0 0])"

definition empty_balearic :: feature where
  "empty_balearic = named ''Illes Balears'' (MultiPolygon [])"

definition balearic_pieces :: "polygon list" where
  "balearic_pieces =
     [triangle 1.4 38.65, triangle 2.9 39.6, triangle 1.4 38.95, triangle 4.1 39.9,
      triangle 3.1 39.5]"

definition balearic_feature :: feature where
  "balearic_feature = named ''Illes Balears'' (MultiPolygon balearic_pieces)"


text \<open>
  Bounds for the examples: a feature that is a pair of corner points \<open>[west, south]\<close>,
  \<open>[east, north]\<close> has these corners as its bounds.
\<close>

definition corner_bounds :: "feature \<Rightarrow> latLngBounds" where
  "corner_bounds f =
     (case geometry f of
        MultiPoint [[w, s], [e, n]] \<Rightarrow> \<lparr>south = s, west = w, north = n, east = e\<rparr>
      | _ \<Rightarrow> \<lparr>south = 0, west = 0, north = 0, east = 0\<rparr>)"

definition region_X_small :: feature where
  "region_X_small = named ''X'' (MultiPoint [[0, 0], [5, 2]])"

definition region_X_large :: feature where
  "region_X_large = named ''X'' (MultiPoint [[0, 0], [5, 4]])"

definition profile_in :: "string \<Rightarrow> string \<Rightarrow> profile" where
  "profile_in i n = \<lparr>profile_id = i, provincias = Some \<lparr>nombre = n\<rparr>\<rparr>"


definition mixed_profiles :: "profile list" where
  "mixed_profiles =
     [profile_in ''u1'' ''Madrid'',
      \<lparr>profile_id = ''u2'', provincias = None\<rparr>,
      profile_in ''u3'' [],
      profile_in ''u4'' ''Atlantis'',
      profile_in ''u5'' ''Madrid'']"

definition madrid_data :: featureCollection where
  "madrid_data = \<lparr>features = [named ''Madrid'' (MultiPoint [[- 4, 40], [- 3, 41]])]\<rparr>"



section \<open>The nearest anchor\<close>

lemma nearestAnchor_loop_member:
  "\<exists>r. nearestAnchor_loop p q xs (Some b) bd = Some r \<and> r \<in> insert b (set xs)"
proof (induction xs arbitrary: b bd)
  case Nil
  then show ?case by simp
next
  case (Cons x xs)
  show ?case
  proof (cases "less_than_best (squaredDistance p q x) bd")
    case True
    with Cons.IH [of x "Some (squaredDistance p q x)"] show ?thesis by (auto simp: Let_def)
  next
    case False
    with Cons.IH [of b bd] show ?thesis by (auto simp: Let_def)
  qed
qed

lemma nearestAnchor_loop_minimal:
  "nearestAnchor_loop p q xs (Some b) (Some (squaredDistance p q b)) = Some r \<Longrightarrow>
   squaredDistance p q r \<le> squaredDistance p q b \<and>
   (\<forall>x \<in> set xs. squaredDistance p q r \<le> squaredDistance p q x)"
proof (induction xs arbitrary: b)
  case Nil
  then show ?case by simp
next
  case (Cons x xs)
  show ?case
  proof (cases "squaredDistance p q x < squaredDistance p q b")
    case True
    with Cons.prems
    have "nearestAnchor_loop p q xs (Some x) (Some (squaredDistance p q x)) = Some r"
      by (simp add: less_than_best_def)
    from Cons.IH [OF this] True show ?thesis by auto
  next
    case False
    with Cons.prems
    have "nearestAnchor_loop p q xs (Some b) (Some (squaredDistance p q b)) = Some r"
      by (simp add: less_than_best_def)
    from Cons.IH [OF this] False show ?thesis by auto
  qed
qed

lemma nearestAnchor_Cons:
  "nearestAnchor p q (a # rest) =
     nearestAnchor_loop p q rest (Some a) (Some (squaredDistance p q a))"
  by (simp add: nearestAnchor_def first_anchor_def less_than_best_def)

lemma nearestAnchor_nearest:
  assumes "anchors \<noteq> []"
  shows "\<exists>a. nearestAnchor p q anchors = Some a \<and> a \<in> set anchors \<and>
             (\<forall>b \<in> set anchors. squaredDistance p q a \<le> squaredDistance p q b)"
proof -
  from assms obtain a0 rest where anchors: "anchors = a0 # rest" by (cases anchors) auto
  from nearestAnchor_loop_member [of p q rest a0 "Some (squaredDistance p q a0)"]
  obtain r where r: "nearestAnchor_loop p q rest (Some a0) (Some (squaredDistance p q a0)) = Some r"
    and mem: "r \<in> insert a0 (set rest)" by blast
  from nearestAnchor_loop_minimal [OF r] mem r show ?thesis
    by (auto simp: anchors nearestAnchor_Cons)
qed

section \<open>The centroid of a piece and the groups of the split\<close>

lemma ringSums_sum:
  "ringSums ring a b =
     (a + (\<Sum>coord\<leftarrow>ring. coordinate coord 0), b + (\<Sum>coord\<leftarrow>ring. coordinate coord 1))"
  by (induction ring arbitrary: a b) (auto simp: algebra_simps)

lemma polygonCentroid_value:
  "polygonCentroid polygon =
     (if first_ring polygon = [] then Some (0, 0)
      else Some ((\<Sum>coord\<leftarrow>first_ring polygon. coordinate coord 1) / real (length (first_ring polygon)),
                 (\<Sum>coord\<leftarrow>first_ring polygon. coordinate coord 0) / real (length (first_ring polygon))))"
  by (simp add: polygonCentroid_def Let_def ringSums_sum divide_by_length_def)

lemma polygonCentroid_total: "\<exists>c. polygonCentroid polygon = Some c"
  by (simp add: polygonCentroid_value)

lemma pieceAnchor_nearest:
  assumes "anchors \<noteq> []"
  shows "\<exists>a plat plng. polygonCentroid polygon = Some (plat, plng) \<and>
           pieceAnchor anchors polygon = Some a \<and> a \<in> set anchors \<and>
           (\<forall>b \<in> set anchors. squaredDistance plat plng a \<le> squaredDistance plat plng b)"
proof -
  obtain plat plng where c: "polygonCentroid polygon = Some (plat, plng)"
    using polygonCentroid_total [of polygon] by auto
  from nearestAnchor_nearest [OF assms, of plat plng] c show ?thesis
    by (auto simp: pieceAnchor_def)
qed

lemma pieceAnchor_member:
  "anchors \<noteq> [] \<Longrightarrow> \<exists>a. pieceAnchor anchors polygon = Some a \<and> a \<in> set anchors"
  using pieceAnchor_nearest [of anchors polygon] by blast

lemma fold_initGroups:
  "fold (\<lambda>anchor groups. groups(name anchor \<mapsto> [])) anchors g k =
     (if k \<in> name ` set anchors then Some [] else g k)"
  by (induction anchors arbitrary: g) auto

lemma initGroups_apply:
  "initGroups anchors k = (if k \<in> name ` set anchors then Some [] else None)"
  by (simp add: initGroups_def fold_initGroups)

lemma assignPolygons_groups:
  assumes "anchors \<noteq> []"
  shows "\<exists>groups'. assignPolygons anchors ps groups = Inr groups' \<and>
           (\<forall>k. groups' k =
              (case groups k of
                 None \<Rightarrow> None
               | Some qs \<Rightarrow> Some (qs @ filter (\<lambda>p. map_option name (pieceAnchor anchors p) = Some k) ps)))"
proof (induction ps arbitrary: groups)
  case Nil
  then show ?case by (auto split: option.splits)
next
  case (Cons p ps)
  from pieceAnchor_member [OF assms, of p] obtain a where a: "pieceAnchor anchors p = Some a" by blast
  from Cons.IH [of "pushPolygon groups (name a) p"]
  obtain groups' where g: "assignPolygons anchors ps (pushPolygon groups (name a) p) = Inr groups'"
    and v: "\<And>k. groups' k = (case pushPolygon groups (name a) p k of None \<Rightarrow> None
               | Some qs \<Rightarrow> Some (qs @ filter (\<lambda>p. map_option name (pieceAnchor anchors p) = Some k) ps))"
    by blast
  show ?case
    using a g by (auto simp: v pushPolygon_def split: option.splits)
qed

lemma emitFeatures_map:
  "emitFeatures feature provinceName groups anchors =
     map (\<lambda>a. subFeature feature provinceName (name a) (the (groups (name a))))
         (filter (\<lambda>a. case groups (name a) of None \<Rightarrow> False | Some cs \<Rightarrow> cs \<noteq> []) anchors)"
  by (induction anchors) (auto split: option.splits)

lemma table_anchors:
  assumes "ISLAND_SPLIT_ANCHORS k = AnchorArray anchors"
  shows "anchors \<noteq> [] \<and> distinct (map name anchors)"
  using assms
  by (auto simp: ISLAND_SPLIT_ANCHORS_def balearic_anchors_def las_palmas_anchors_def
      tenerife_anchors_def split: if_splits)

lemma name_inj_on:
  assumes "distinct (map name anchors)" "a \<in> set anchors" "b \<in> set anchors" "name a = name b"
  shows "a = b"
  using assms by (meson distinct_map inj_onD)

lemma groups_anchorPieces:
  assumes ne: "anchors \<noteq> []" and d: "distinct (map name anchors)"
  shows "\<exists>groups. assignPolygons anchors coordinates (initGroups anchors) = Inr groups \<and>
           (\<forall>a \<in> set anchors. groups (name a) = Some (anchorPieces anchors coordinates a))"
proof -
  from assignPolygons_groups [OF ne, of coordinates "initGroups anchors"]
  obtain groups where g: "assignPolygons anchors coordinates (initGroups anchors) = Inr groups"
    and v: "\<And>k. groups k = (case initGroups anchors k of None \<Rightarrow> None
         | Some qs \<Rightarrow> Some (qs @ filter (\<lambda>p. map_option name (pieceAnchor anchors p) = Some k) coordinates))"
    by blast
  have "groups (name a) = Some (anchorPieces anchors coordinates a)" if a: "a \<in> set anchors" for a
  proof -
    have "(map_option name (pieceAnchor anchors p) = Some (name a)) = (pieceAnchor anchors p = Some a)" for p
    proof -
      from pieceAnchor_member [OF ne, of p] obtain b where b: "pieceAnchor anchors p = Some b" "b \<in> set anchors"
        by blast
      with name_inj_on [OF d b(2) a] show ?thesis by auto
    qed
    then show ?thesis using a by (simp add: v initGroups_apply anchorPieces_def)
  qed
  with g show ?thesis by blast
qed

lemma splitIslandFeature_archipelago:
  assumes t: "ISLAND_SPLIT_ANCHORS (getRawProvinceName feature) = AnchorArray anchors"
    and mp: "geometry feature = MultiPolygon coordinates"
  shows "splitIslandFeature feature =
     Inr (let splitFeatures =
                map (\<lambda>a. subFeature feature (getRawProvinceName feature) (name a)
                           (anchorPieces anchors coordinates a))
                    (filter (receivedPiece anchors coordinates) anchors)
          in if splitFeatures = [] then [feature] else splitFeatures)"
proof -
  from table_anchors [OF t] have ne: "anchors \<noteq> []" and d: "distinct (map name anchors)" by auto
  from groups_anchorPieces [OF ne d, of coordinates]
  obtain groups where g: "assignPolygons anchors coordinates (initGroups anchors) = Inr groups"
    and v: "\<And>a. a \<in> set anchors \<Longrightarrow> groups (name a) = Some (anchorPieces anchors coordinates a)"
    by blast
  have f: "filter (\<lambda>a. case groups (name a) of None \<Rightarrow> False | Some cs \<Rightarrow> cs \<noteq> []) anchors =
        filter (receivedPiece anchors coordinates) anchors"
    by (rule filter_cong) (auto simp: v receivedPiece_def)
  have e: "emitFeatures feature (getRawProvinceName feature) groups anchors =
     map (\<lambda>a. subFeature feature (getRawProvinceName feature) (name a)
                           (anchorPieces anchors coordinates a))
                    (filter (receivedPiece anchors coordinates) anchors)"
    unfolding emitFeatures_map f by (rule map_cong) (auto simp: v)
  show ?thesis
    by (simp add: splitIslandFeature_def Let_def t mp multiPolygonCoordinates_def g e)
qed

lemma no_anchor_for_piece:
  "a \<notin> set anchors \<Longrightarrow> (\<Sum>b\<leftarrow>anchors. (if a = b then {#p#} else {#})) = {#}"
  by (induction anchors) auto

lemma one_anchor_per_piece:
  assumes "distinct anchors" "a \<in> set anchors"
  shows "(\<Sum>b\<leftarrow>anchors. (if a = b then {#p#} else {#})) = {#p#}"
  using assms by (induction anchors) (auto simp: no_anchor_for_piece)

lemma mset_groups:
  assumes ne: "anchors \<noteq> []" and d: "distinct anchors"
  shows "(\<Sum>a\<leftarrow>anchors. mset (anchorPieces anchors coordinates a)) = mset coordinates"
proof -
  have "(\<Sum>a\<leftarrow>anchors. mset (filter (\<lambda>p. pieceAnchor anchors p = Some a) ps)) = mset ps" for ps
  proof (induction ps)
    case Nil
    then show ?case by (induction anchors) auto
  next
    case (Cons p ps)
    from pieceAnchor_member [OF ne, of p] obtain a where a: "pieceAnchor anchors p = Some a" "a \<in> set anchors"
      by blast
    have "(\<Sum>b\<leftarrow>anchors. mset (filter (\<lambda>p. pieceAnchor anchors p = Some b) (p # ps))) =
          (\<Sum>b\<leftarrow>anchors. (if a = b then {#p#} else {#}) + mset (filter (\<lambda>p. pieceAnchor anchors p = Some b) ps))"
      by (rule arg_cong [where f = sum_list], rule map_cong) (auto simp: a)
    also have "\<dots> = (\<Sum>b\<leftarrow>anchors. (if a = b then {#p#} else {#})) + (\<Sum>b\<leftarrow>anchors. mset (filter (\<lambda>p. pieceAnchor anchors p = Some b) ps))"
      by (simp add: sum_list_addf)
    also have "\<dots> = {#p#} + mset ps"
      by (simp only: one_anchor_per_piece [OF d a(2)] Cons.IH)
    finally show ?case by simp
  qed
  then show ?thesis by (simp add: anchorPieces_def)
qed

section \<open>The split keeps the geometry of every region it returns\<close>

lemma geometry_subFeature [simp]:
  "geometry (subFeature feature provinceName anchorName coordinates) = MultiPolygon coordinates"
  by (simp add: subFeature_def)

lemma getProvinceName_subFeature [simp]:
  "getProvinceName (subFeature feature provinceName anchorName coordinates) = provinceName"
  by (simp add: subFeature_def getProvinceName_def getStringProperty_def)

lemma getFeatureLabel_subFeature [simp]:
  "getFeatureLabel (subFeature feature provinceName anchorName coordinates) = anchorName"
  by (simp add: subFeature_def getFeatureLabel_def getStringProperty_def)

lemma sum_list_map_mset_cong:
  "mset xs = mset ys \<Longrightarrow> sum_list (map f xs) = sum_list (map (f :: 'a \<Rightarrow> nat) ys)"
proof -
  assume "mset xs = mset ys"
  then have "\<Sum>\<^sub># (image_mset f (mset xs)) = \<Sum>\<^sub># (image_mset f (mset ys))" by simp
  then show ?thesis by (simp only: flip: mset_map sum_mset_sum_list)
qed

lemma sum_list_filter_received:
  "(\<Sum>a\<leftarrow>filter (receivedPiece anchors coordinates) anchors'. mset (anchorPieces anchors coordinates a)) =
   (\<Sum>a\<leftarrow>anchors'. mset (anchorPieces anchors coordinates a))"
  by (induction anchors') (auto simp: receivedPiece_def)

lemma allPieces_subFeatures:
  "mset (allPieces (map (\<lambda>a. subFeature feature provinceName (name a) (anchorPieces anchors coordinates a))
                        (filter (receivedPiece anchors coordinates) anchors))) =
   (\<Sum>a\<leftarrow>anchors. mset (anchorPieces anchors coordinates a))"
  by (simp add: allPieces_def mset_concat comp_def sum_list_filter_received)

lemma totalVertices_subFeatures:
  "totalVertices (map (\<lambda>a. subFeature feature provinceName (name a) (cs a)) anchors) =
   sum_list (map polygonVertices (allPieces (map (\<lambda>a. subFeature feature provinceName (name a) (cs a)) anchors)))"
  by (induction anchors) (auto simp: totalVertices_def allPieces_def)

lemma distinct_anchors: "distinct (map name anchors) \<Longrightarrow> distinct anchors"
  by (simp add: distinct_map)

lemma splitIslandFeature_cases:
  obtains (same) "splitIslandFeature feature = Inr [feature]"
  | (raises) "ISLAND_SPLIT_ANCHORS (getRawProvinceName feature) = InheritedMember"
      "\<exists>coordinates. geometry feature = MultiPolygon coordinates"
      "splitIslandFeature feature = Inl TypeError"
  | (split) anchors coordinates where
      "ISLAND_SPLIT_ANCHORS (getRawProvinceName feature) = AnchorArray anchors"
      "geometry feature = MultiPolygon coordinates"
      "filter (receivedPiece anchors coordinates) anchors \<noteq> []"
      "splitIslandFeature feature =
         Inr (map (\<lambda>a. subFeature feature (getRawProvinceName feature) (name a)
                           (anchorPieces anchors coordinates a))
                    (filter (receivedPiece anchors coordinates) anchors))"
proof (cases "ISLAND_SPLIT_ANCHORS (getRawProvinceName feature)")
  case Undefined
  then have "splitIslandFeature feature = Inr [feature]"
    by (simp add: splitIslandFeature_def)
  then show ?thesis by (rule same)
next
  case InheritedMember
  show ?thesis
  proof (cases "multiPolygonCoordinates (geometry feature)")
    case None
    with InheritedMember have "splitIslandFeature feature = Inr [feature]"
      by (simp add: splitIslandFeature_def)
    then show ?thesis by (rule same)
  next
    case (Some cs)
    with InheritedMember have "splitIslandFeature feature = Inl TypeError"
      by (simp add: splitIslandFeature_def)
    moreover from Some have "\<exists>coordinates. geometry feature = MultiPolygon coordinates"
      by (auto simp: multiPolygonCoordinates_def split: geometry.splits)
    ultimately show ?thesis using InheritedMember by (intro raises)
  qed
next
  case (AnchorArray anchors)
  show ?thesis
  proof (cases "multiPolygonCoordinates (geometry feature)")
    case None
    with AnchorArray have "splitIslandFeature feature = Inr [feature]"
      by (simp add: splitIslandFeature_def)
    then show ?thesis by (rule same)
  next
    case (Some cs)
    then have mp: "geometry feature = MultiPolygon cs"
      by (auto simp: multiPolygonCoordinates_def split: geometry.splits)
    note c = splitIslandFeature_archipelago [OF AnchorArray mp]
    show ?thesis
    proof (cases "filter (receivedPiece anchors cs) anchors = []")
      case True
      with c have "splitIslandFeature feature = Inr [feature]" by simp
      then show ?thesis by (rule same)
    next
      case False
      with c show ?thesis by (intro split [OF AnchorArray mp]) (simp_all add: Let_def)
    qed
  qed
qed

lemma splitIslandFeature_preserves:
  assumes "splitIslandFeature feature = Inr out"
  shows "mset (allPieces out) = mset (pieces (geometry feature)) \<and>
         totalVertices out = vertexCount (geometry feature)"
proof (cases feature rule: splitIslandFeature_cases)
  case same
  with assms show ?thesis by (auto simp: allPieces_def totalVertices_def)
next
  case raises
  with assms show ?thesis by simp
next
  case (split anchors coordinates)
  from table_anchors [OF split(1)] have ne: "anchors \<noteq> []" and d: "distinct anchors"
    by (auto intro: distinct_anchors)
  from split(4) assms have out: "out = map (\<lambda>a. subFeature feature (getRawProvinceName feature) (name a)
                           (anchorPieces anchors coordinates a))
                    (filter (receivedPiece anchors coordinates) anchors)" by simp
  have m: "mset (allPieces out) = mset coordinates"
    unfolding out allPieces_subFeatures by (rule mset_groups [OF ne d])
  have "totalVertices out = sum_list (map polygonVertices (allPieces out))"
    unfolding out by (rule totalVertices_subFeatures)
  also have "\<dots> = sum_list (map polygonVertices coordinates)"
    by (rule sum_list_map_mset_cong [OF m])
  finally show ?thesis using m split(2) by simp
qed

lemma allPieces_append: "allPieces (xs @ ys) = allPieces xs @ allPieces ys"
  by (simp add: allPieces_def)

lemma totalVertices_append: "totalVertices (xs @ ys) = totalVertices xs + totalVertices ys"
  by (simp add: totalVertices_def)

lemma flatMap_split_preserves:
  "flatMap splitIslandFeature fs = Inr out \<Longrightarrow>
     mset (allPieces out) = mset (allPieces fs) \<and> totalVertices out = totalVertices fs"
proof (induction fs arbitrary: out)
  case Nil
  then show ?case by simp
next
  case (Cons f fs)
  from Cons.prems obtain ys zs where ys: "splitIslandFeature f = Inr ys"
    and zs: "flatMap splitIslandFeature fs = Inr zs" and out: "out = ys @ zs"
    by (auto split: sum.splits)
  from splitIslandFeature_preserves [OF ys] Cons.IH [OF zs] show ?case
    by (simp add: out allPieces_append totalVertices_append) (simp add: allPieces_def totalVertices_def)
qed

lemma splitArchipelagos_preserves:
  "splitArchipelagos data = Inr data' \<Longrightarrow>
     mset (allPieces (features data')) = mset (allPieces (features data)) \<and>
     totalVertices (features data') = totalVertices (features data)"
  using flatMap_split_preserves [of "features data"]
  by (auto simp: splitArchipelagos_def split: sum.splits)

section \<open>Facts about the example inputs\<close>

lemma raw_named [simp]: "getRawProvinceName (named n g) = n"
  by (simp add: named_def getRawProvinceName_def getStringProperty_def)

lemma geometry_named [simp]: "geometry (named n g) = g"
  by (simp add: named_def)

lemma centroid_triangle: "polygonCentroid (triangle x y) = Some (y + 0.025, x + 0.025)"
  by (simp add: polygonCentroid_value first_ring_def triangle_def coordinate_def)

lemma first_ring_triangle: "first_ring (triangle x y) = [[x, y], [x + 0.1, y], [x, y + 0.1], [x, y]]"
  by (simp add: first_ring_def triangle_def)

lemma pieceAnchor_balearic_pieces:
  "map (pieceAnchor balearic_anchors) balearic_pieces =
     [Some (balearic_anchors ! 3), Some (balearic_anchors ! 0), Some (balearic_anchors ! 2),
      Some (balearic_anchors ! 1), Some (balearic_anchors ! 0)]"
  by (simp add: balearic_pieces_def pieceAnchor_def centroid_triangle balearic_anchors_def
      nearestAnchor_Cons squaredDistance_def less_than_best_def Let_def)

lemma received_balearic_pieces:
  "filter (receivedPiece balearic_anchors balearic_pieces) balearic_anchors = balearic_anchors"
proof -
  have "\<forall>a \<in> set balearic_anchors. receivedPiece balearic_anchors balearic_pieces a"
    using pieceAnchor_balearic_pieces
    by (auto simp: receivedPiece_def anchorPieces_def filter_empty_conv balearic_pieces_def
        balearic_anchors_def)
  then show ?thesis by simp
qed

lemma table_balearic [simp]: "ISLAND_SPLIT_ANCHORS ''Illes Balears'' = AnchorArray balearic_anchors"
  by (simp add: ISLAND_SPLIT_ANCHORS_def)

lemma received_nonempty:
  assumes "anchors \<noteq> []" "coordinates \<noteq> []"
  shows "filter (receivedPiece anchors coordinates) anchors \<noteq> []"
proof -
  from assms(2) obtain p ps where c: "coordinates = p # ps" by (cases coordinates) auto
  from pieceAnchor_member [OF assms(1), of p] obtain a where a: "pieceAnchor anchors p = Some a" "a \<in> set anchors"
    by blast
  then have "receivedPiece anchors coordinates a"
    by (simp add: receivedPiece_def anchorPieces_def c)
  with a(2) show ?thesis by (auto simp: filter_empty_conv)
qed

section \<open>The regions an archipelago province is split into\<close>

text \<open>
  Claim C2 as it is written covers every archipelago province whose geometry is a
  multi-polygon, and lets the number of output regions be the number of anchors that
  received a piece. For the multi-polygon without pieces no anchor receives one, and the
  split returns one region all the same: the original one, whose label is no anchor's name.
\<close>

theorem split_archipelago_empty_counterexample:
  "splitIslandFeature empty_balearic = Inr [empty_balearic] \<and>
   ISLAND_SPLIT_ANCHORS (getRawProvinceName empty_balearic) = AnchorArray balearic_anchors \<and>
   geometry empty_balearic = MultiPolygon [] \<and>
   length [empty_balearic] \<noteq> length (filter (receivedPiece balearic_anchors []) balearic_anchors) \<and>
   getFeatureLabel empty_balearic \<notin> set (map name balearic_anchors)"
proof -
  have "splitIslandFeature empty_balearic = Inr [empty_balearic]"
    by (simp add: splitIslandFeature_def empty_balearic_def multiPolygonCoordinates_def
        balearic_anchors_def initGroups_def)
  moreover have "filter (receivedPiece balearic_anchors []) balearic_anchors = []"
    by (simp add: receivedPiece_def anchorPieces_def)
  moreover have "getFeatureLabel empty_balearic = ''Illes Balears''"
    by (simp add: getFeatureLabel_def getStringProperty_def empty_balearic_def named_def
        getRawProvinceName_def)
  ultimately show ?thesis
    by (simp add: empty_balearic_def balearic_anchors_def)
qed

text \<open>
  Claim C2, amended: for an archipelago province whose geometry is a multi-polygon with at
  least one piece, the split returns one region per anchor that received a piece, in the
  order of the anchors. The resolved name of each region is the original province name,
  its display label is its anchor's name, and its geometry is the multi-polygon of the
  pieces assigned to that anchor. For the Balearic Islands with a piece nearest to each of
  the four anchors these are four regions, labelled Mallorca, Menorca, Ibiza, Formentera.
\<close>

theorem split_archipelago_regions:
  assumes t: "ISLAND_SPLIT_ANCHORS (getRawProvinceName feature) = AnchorArray anchors"
    and mp: "geometry feature = MultiPolygon coordinates"
    and ne: "coordinates \<noteq> []"
  shows "\<exists>out. splitIslandFeature feature = Inr out \<and>
     length out = length (filter (receivedPiece anchors coordinates) anchors) \<and>
     map getProvinceName out =
       map (\<lambda>a. getRawProvinceName feature) (filter (receivedPiece anchors coordinates) anchors) \<and>
     map getFeatureLabel out = map name (filter (receivedPiece anchors coordinates) anchors) \<and>
     map geometry out =
       map (\<lambda>a. MultiPolygon (anchorPieces anchors coordinates a))
           (filter (receivedPiece anchors coordinates) anchors) \<and>
     (getRawProvinceName feature = ''Illes Balears'' \<longrightarrow>
      (\<forall>a \<in> set balearic_anchors. \<exists>p \<in> set coordinates. pieceAnchor balearic_anchors p = Some a) \<longrightarrow>
        length out = 4 \<and>
        map getFeatureLabel out = [''Mallorca'', ''Menorca'', ''Ibiza'', ''Formentera''] \<and>
        map getProvinceName out = [''Illes Balears'', ''Illes Balears'', ''Illes Balears'', ''Illes Balears''])"
proof -
  let ?as = "filter (receivedPiece anchors coordinates) anchors"
  let ?out = "map (\<lambda>a. subFeature feature (getRawProvinceName feature) (name a)
                           (anchorPieces anchors coordinates a)) ?as"
  from table_anchors [OF t] have "anchors \<noteq> []" by simp
  from received_nonempty [OF this ne] have r: "?as \<noteq> []" .
  with splitIslandFeature_archipelago [OF t mp] have s: "splitIslandFeature feature = Inr ?out"
    by (simp add: Let_def)
  have b: "length ?out = 4 \<and>
        map getFeatureLabel ?out = [''Mallorca'', ''Menorca'', ''Ibiza'', ''Formentera''] \<and>
        map getProvinceName ?out = [''Illes Balears'', ''Illes Balears'', ''Illes Balears'', ''Illes Balears'']"
    if n: "getRawProvinceName feature = ''Illes Balears''"
      and all: "\<forall>a \<in> set balearic_anchors. \<exists>p \<in> set coordinates. pieceAnchor balearic_anchors p = Some a"
  proof -
    from t n have a: "anchors = balearic_anchors" by simp
    from all have "\<forall>a \<in> set balearic_anchors. receivedPiece balearic_anchors coordinates a"
      by (auto simp: receivedPiece_def anchorPieces_def filter_empty_conv)
    then have "filter (receivedPiece balearic_anchors coordinates) balearic_anchors = balearic_anchors"
      by simp
    then show ?thesis
      by (simp add: a n comp_def) (simp add: balearic_anchors_def)
  qed
  show ?thesis
    by (rule exI [of _ ?out]) (use s b in \<open>simp add: comp_def\<close>)
qed

text \<open>The split of a Balearic multi-polygon of five pieces.\<close>

theorem split_archipelago_regions_witness:
  "ISLAND_SPLIT_ANCHORS (getRawProvinceName balearic_feature) = AnchorArray balearic_anchors \<and>
   geometry balearic_feature = MultiPolygon balearic_pieces \<and>
   balearic_pieces \<noteq> [] \<and>
   (\<exists>out. splitIslandFeature balearic_feature = Inr out \<and> length out = 4 \<and>
      map getFeatureLabel out = [''Mallorca'', ''Menorca'', ''Ibiza'', ''Formentera''] \<and>
      map getProvinceName out = [''Illes Balears'', ''Illes Balears'', ''Illes Balears'', ''Illes Balears''] \<and>
      map geometry out =
        [MultiPolygon [triangle 2.9 39.6, triangle 3.1 39.5], MultiPolygon [triangle 4.1 39.9],
         MultiPolygon [triangle 1.4 38.95], MultiPolygon [triangle 1.4 38.65]])"
proof -
  have t: "ISLAND_SPLIT_ANCHORS (getRawProvinceName balearic_feature) = AnchorArray balearic_anchors"
    by (simp add: balearic_feature_def)
  have mp: "geometry balearic_feature = MultiPolygon balearic_pieces"
    by (simp add: balearic_feature_def)
  have ne: "balearic_pieces \<noteq> []" by (simp add: balearic_pieces_def)
  have g: "map (anchorPieces balearic_anchors balearic_pieces) balearic_anchors =
      [[triangle 2.9 39.6, triangle 3.1 39.5], [triangle 4.1 39.9],
         [triangle 1.4 38.95], [triangle 1.4 38.65]]"
    using pieceAnchor_balearic_pieces
    by (simp add: anchorPieces_def balearic_pieces_def balearic_anchors_def)
  have "\<forall>a \<in> set balearic_anchors. \<exists>p \<in> set balearic_pieces. pieceAnchor balearic_anchors p = Some a"
    using pieceAnchor_balearic_pieces by (auto simp: balearic_pieces_def balearic_anchors_def)
  with split_archipelago_regions [OF t mp ne]
  obtain out where "splitIslandFeature balearic_feature = Inr out" "length out = 4"
    "map getFeatureLabel out = [''Mallorca'', ''Menorca'', ''Ibiza'', ''Formentera'']"
    "map getProvinceName out = [''Illes Balears'', ''Illes Balears'', ''Illes Balears'', ''Illes Balears'']"
    "map geometry out = map (\<lambda>a. MultiPolygon (anchorPieces balearic_anchors balearic_pieces a)) balearic_anchors"
    unfolding received_balearic_pieces by (auto simp: balearic_feature_def)
  moreover have "map (\<lambda>a. MultiPolygon (anchorPieces balearic_anchors balearic_pieces a)) balearic_anchors =
     map MultiPolygon (map (anchorPieces balearic_anchors balearic_pieces) balearic_anchors)"
    by simp
  ultimately show ?thesis using t mp ne by (simp add: g)
qed

section \<open>A region named like a member of the object prototype\<close>

text \<open>
  Claim C1: for every input feature collection the split keeps all geometry. The anchor
  table is an object literal, and a raw province name that is a member name of
  \<open>Object.prototype\<close> finds an inherited member in it: for a multi-polygon region of
  that name \<open>splitIslandFeature\<close> raises a \<open>TypeError\<close>, and \<open>splitArchipelagos\<close>
  returns no collection at all.
\<close>

theorem splitArchipelagos_inherited_name_raises:
  "getRawProvinceName constructor_feature = ''constructor'' \<and>
   ISLAND_SPLIT_ANCHORS ''constructor'' = InheritedMember \<and>
   totalVertices [constructor_feature] = 4 \<and>
   splitIslandFeature constructor_feature = Inl TypeError \<and>
   splitArchipelagos \<lparr>features = [constructor_feature]\<rparr> = Inl TypeError"
proof -
  have t: "ISLAND_SPLIT_ANCHORS ''constructor'' = InheritedMember"
    by (simp add: ISLAND_SPLIT_ANCHORS_def Object_prototype_keys_def)
  have v: "totalVertices [constructor_feature] = 4"
    by (simp add: totalVertices_def constructor_feature_def polygonVertices_def triangle_def)
  have s: "splitIslandFeature constructor_feature = Inl TypeError"
    by (simp add: splitIslandFeature_def constructor_feature_def t multiPolygonCoordinates_def)
  then have "splitArchipelagos \<lparr>features = [constructor_feature]\<rparr> = Inl TypeError"
    by (simp add: splitArchipelagos_def)
  with t v s show ?thesis by (simp add: constructor_feature_def)
qed

text \<open>
  The split of a collection returns unless one of its multi-polygon regions has such a
  name; and whenever it returns, every polygon piece of the input is a piece of the output
  exactly as often and the number of vertices is the same (\<open>splitArchipelagos_preserves\<close>).
\<close>

lemma splitArchipelagos_returns:
  assumes "\<forall>f \<in> set (features data).
     ISLAND_SPLIT_ANCHORS (getRawProvinceName f) = InheritedMember \<longrightarrow>
     multiPolygonCoordinates (geometry f) = None"
  shows "\<exists>data'. splitArchipelagos data = Inr data'"
proof -
  have "\<exists>out. flatMap splitIslandFeature fs = Inr out"
    if "\<forall>f \<in> set fs. ISLAND_SPLIT_ANCHORS (getRawProvinceName f) = InheritedMember \<longrightarrow>
     multiPolygonCoordinates (geometry f) = None" for fs :: "'b feature_scheme list"
    using that
  proof (induction fs)
    case Nil
    then show ?case by simp
  next
    case (Cons f fs)
    then obtain zs where zs: "flatMap splitIslandFeature fs = Inr zs" by auto
    have "\<exists>ys. splitIslandFeature f = Inr ys"
    proof (cases f rule: splitIslandFeature_cases)
      case raises
      with Cons.prems show ?thesis by (auto simp: multiPolygonCoordinates_def)
    qed auto
    with zs show ?case by auto
  qed
  from this [OF assms] show ?thesis by (auto simp: splitArchipelagos_def)
qed

section \<open>The split never returns an empty result\<close>

text \<open>
  Claim C6: the split of a region never returns the empty list, and for an archipelago
  multi-polygon whose groups are all empty after the assignment loop it returns the
  original region, unmodified, as a singleton.
\<close>

theorem split_never_empty:
  "splitIslandFeature feature \<noteq> Inr [] \<and>
   (\<forall>anchors coordinates groups.
      ISLAND_SPLIT_ANCHORS (getRawProvinceName feature) = AnchorArray anchors \<longrightarrow>
      geometry feature = MultiPolygon coordinates \<longrightarrow>
      assignPolygons anchors coordinates (initGroups anchors) = Inr groups \<longrightarrow>
      (\<forall>a \<in> set anchors. groups (name a) = None \<or> groups (name a) = Some []) \<longrightarrow>
      splitIslandFeature feature = Inr [feature])"
proof
  show "splitIslandFeature feature \<noteq> Inr []"
    by (cases feature rule: splitIslandFeature_cases) auto
next
  have "emitFeatures feature provinceName groups anchors = []"
    if "\<forall>a \<in> set anchors. groups (name a) = None \<or> groups (name a) = Some []"
    for provinceName groups and anchors :: "IslandAnchor list"
    using that by (induction anchors) auto
  then show "\<forall>anchors coordinates groups.
      ISLAND_SPLIT_ANCHORS (getRawProvinceName feature) = AnchorArray anchors \<longrightarrow>
      geometry feature = MultiPolygon coordinates \<longrightarrow>
      assignPolygons anchors coordinates (initGroups anchors) = Inr groups \<longrightarrow>
      (\<forall>a \<in> set anchors. groups (name a) = None \<or> groups (name a) = Some []) \<longrightarrow>
      splitIslandFeature feature = Inr [feature]"
    by (simp add: splitIslandFeature_def multiPolygonCoordinates_def)
qed

text \<open>The Balearic multi-polygon without pieces comes back as it went in.\<close>

theorem split_never_empty_witness:
  "ISLAND_SPLIT_ANCHORS (getRawProvinceName empty_balearic) = AnchorArray balearic_anchors \<and>
   geometry empty_balearic = MultiPolygon [] \<and>
   assignPolygons balearic_anchors [] (initGroups balearic_anchors) = Inr (initGroups balearic_anchors) \<and>
   map (\<lambda>a. initGroups balearic_anchors (name a)) balearic_anchors = [Some [], Some [], Some [], Some []] \<and>
   splitIslandFeature empty_balearic \<noteq> Inr [] \<and>
   splitIslandFeature empty_balearic = Inr [empty_balearic]"
proof -
  have t: "ISLAND_SPLIT_ANCHORS (getRawProvinceName empty_balearic) = AnchorArray balearic_anchors"
    by (simp add: empty_balearic_def)
  have mp: "geometry empty_balearic = MultiPolygon []" by (simp add: empty_balearic_def)
  have a: "assignPolygons balearic_anchors [] (initGroups balearic_anchors) = Inr (initGroups balearic_anchors)"
    by simp
  have g: "\<forall>a \<in> set balearic_anchors. initGroups balearic_anchors (name a) = None \<or>
     initGroups balearic_anchors (name a) = Some []"
    by (simp add: initGroups_apply)
  have m: "map (\<lambda>a. initGroups balearic_anchors (name a)) balearic_anchors = [Some [], Some [], Some [], Some []]"
    by (simp add: initGroups_apply) (simp add: balearic_anchors_def)
  from split_never_empty [of empty_balearic] t mp a g m show ?thesis by blast
qed

section \<open>The centroid of a piece is total\<close>

text \<open>
  Claim C9: the centroid of a piece is computed for every polygon, the division by the
  ring's length never has a zero divisor, and a polygon whose first ring is empty (or that
  has no ring at all) gets the fallback \<open>(0, 0)\<close>.
\<close>

theorem polygonCentroid_total_with_fallback:
  "(\<exists>plat plng. polygonCentroid polygon = Some (plat, plng)) \<and>
   (first_ring polygon = [] \<longrightarrow> polygonCentroid polygon = Some (0, 0))"
  by (simp add: polygonCentroid_value)

text \<open>An empty first ring, no ring at all, and a ring of malformed positions.\<close>

theorem polygonCentroid_total_with_fallback_witness:
  "first_ring [[]] = [] \<and> polygonCentroid [[]] = Some (0, 0) \<and>
   first_ring [] = [] \<and> polygonCentroid [] = Some (0, 0) \<and>
   (\<exists>plat plng. polygonCentroid [[[1], []]] = Some (plat, plng))"
  using polygonCentroid_total_with_fallback [of "[[]]"]
    polygonCentroid_total_with_fallback [of "[]"]
    polygonCentroid_total_with_fallback [of "[[[1], []]]"]
  by (simp add: first_ring_def)

section \<open>Name resolution is total and falls back to a sentinel\<close>



section \<open>Every piece goes to its nearest anchor, and to that one only\<close>

lemma filter_eq_distinct:
  "distinct xs \<Longrightarrow> a \<in> set xs \<Longrightarrow> filter (\<lambda>x. x = a) xs = [a]"
  by (induction xs) (auto simp: filter_empty_conv)

lemma squaredDistance_power:
  "squaredDistance plat plng a = (lat a - plat)\<^sup>2 + (lng a - plng)\<^sup>2"
  by (simp add: squaredDistance_def Let_def power2_eq_square)

text \<open>
  Claim C3: every piece of an archipelago province's multi-polygon is assigned to an anchor
  of the province whose squared distance from the centroid of the piece is minimal among
  the anchors, where the centroid of a piece with a non-empty first ring is the arithmetic
  mean of the latitudes and of the longitudes of that ring's vertices; and the piece lies
  in exactly one of the regions the split returns, the one labelled with that anchor.
\<close>

theorem piece_assigned_to_nearest_anchor:
  assumes t: "ISLAND_SPLIT_ANCHORS (getRawProvinceName feature) = AnchorArray anchors"
    and mp: "geometry feature = MultiPolygon coordinates"
    and p: "polygon \<in> set coordinates"
  shows "\<exists>a plat plng out.
     polygonCentroid polygon = Some (plat, plng) \<and>
     (first_ring polygon \<noteq> [] \<longrightarrow>
        plat = (\<Sum>coord\<leftarrow>first_ring polygon. coordinate coord 1) / real (length (first_ring polygon)) \<and>
        plng = (\<Sum>coord\<leftarrow>first_ring polygon. coordinate coord 0) / real (length (first_ring polygon))) \<and>
     pieceAnchor anchors polygon = Some a \<and> a \<in> set anchors \<and>
     (\<forall>b \<in> set anchors.
        (lat a - plat)\<^sup>2 + (lng a - plng)\<^sup>2 \<le> (lat b - plat)\<^sup>2 + (lng b - plng)\<^sup>2) \<and>
     splitIslandFeature feature = Inr out \<and>
     length (filter (holdsPiece polygon) out) = 1 \<and>
     map getFeatureLabel (filter (holdsPiece polygon) out) = [name a]"
proof -
  let ?as = "filter (receivedPiece anchors coordinates) anchors"
  let ?sub = "\<lambda>a. subFeature feature (getRawProvinceName feature) (name a)
                           (anchorPieces anchors coordinates a)"
  from table_anchors [OF t] have ne: "anchors \<noteq> []" and d: "distinct anchors"
    by (auto intro: distinct_anchors)
  from pieceAnchor_nearest [OF ne, of polygon]
  obtain a plat plng where c: "polygonCentroid polygon = Some (plat, plng)"
    and a: "pieceAnchor anchors polygon = Some a" "a \<in> set anchors"
    and m: "\<forall>b \<in> set anchors. squaredDistance plat plng a \<le> squaredDistance plat plng b"
    by blast
  from c have mean: "first_ring polygon \<noteq> [] \<longrightarrow>
        plat = (\<Sum>coord\<leftarrow>first_ring polygon. coordinate coord 1) / real (length (first_ring polygon)) \<and>
        plng = (\<Sum>coord\<leftarrow>first_ring polygon. coordinate coord 0) / real (length (first_ring polygon))"
    by (auto simp: polygonCentroid_value)
  from p have cne: "coordinates \<noteq> []" by auto
  from received_nonempty [OF ne cne] splitIslandFeature_archipelago [OF t mp]
  have s: "splitIslandFeature feature = Inr (map ?sub ?as)" by (simp add: Let_def)
  have h: "holdsPiece polygon (?sub b) = (b = a)" for b
    using p a by (auto simp: holdsPiece_def anchorPieces_def)
  from a p have "receivedPiece anchors coordinates a"
    by (auto simp: receivedPiece_def anchorPieces_def filter_empty_conv)
  with a have "a \<in> set ?as" by simp
  moreover from d have "distinct ?as" by simp
  ultimately have "filter (\<lambda>b. b = a) ?as = [a]" by (rule filter_eq_distinct [rotated])
  then have f: "filter (holdsPiece polygon) (map ?sub ?as) = [?sub a]"
    by (simp add: filter_map comp_def h)
  show ?thesis
    using c mean a m s f by (auto simp: squaredDistance_power)
qed

lemma pieceAnchor_triangle_mallorca:
  "pieceAnchor balearic_anchors (triangle 3.1 39.5) = Some (balearic_anchors ! 0)"
  using pieceAnchor_balearic_pieces by (simp add: balearic_pieces_def)

text \<open>The fifth piece of the Balearic example, a triangle east of Mallorca's anchor.\<close>

theorem piece_assigned_to_nearest_anchor_witness:
  "ISLAND_SPLIT_ANCHORS (getRawProvinceName balearic_feature) = AnchorArray balearic_anchors \<and>
   geometry balearic_feature = MultiPolygon balearic_pieces \<and>
   triangle 3.1 39.5 \<in> set balearic_pieces \<and>
   first_ring (triangle 3.1 39.5) \<noteq> [] \<and>
   polygonCentroid (triangle 3.1 39.5) = Some (39.525, 3.125) \<and>
   pieceAnchor balearic_anchors (triangle 3.1 39.5) = Some \<lparr>name = ''Mallorca'', lat = 39.6, lng = 2.9\<rparr> \<and>
   (\<exists>out. splitIslandFeature balearic_feature = Inr out \<and>
      length (filter (holdsPiece (triangle 3.1 39.5)) out) = 1 \<and>
      map getFeatureLabel (filter (holdsPiece (triangle 3.1 39.5)) out) = [''Mallorca''])"
proof -
  have t: "ISLAND_SPLIT_ANCHORS (getRawProvinceName balearic_feature) = AnchorArray balearic_anchors"
    by (simp add: balearic_feature_def)
  have mp: "geometry balearic_feature = MultiPolygon balearic_pieces"
    by (simp add: balearic_feature_def)
  have p: "triangle 3.1 39.5 \<in> set balearic_pieces" by (simp add: balearic_pieces_def)
  have r: "first_ring (triangle 3.1 39.5) \<noteq> []" by (simp add: first_ring_triangle)
  have c: "polygonCentroid (triangle 3.1 39.5) = Some (39.525, 3.125)"
    by (simp add: centroid_triangle)
  have a: "pieceAnchor balearic_anchors (triangle 3.1 39.5) = Some \<lparr>name = ''Mallorca'', lat = 39.6, lng = 2.9\<rparr>"
    using pieceAnchor_triangle_mallorca by (simp add: balearic_anchors_def)
  from piece_assigned_to_nearest_anchor [OF t mp p] a
  have "\<exists>out. splitIslandFeature balearic_feature = Inr out \<and>
      length (filter (holdsPiece (triangle 3.1 39.5)) out) = 1 \<and>
      map getFeatureLabel (filter (holdsPiece (triangle 3.1 39.5)) out) = [''Mallorca'']"
    by auto
  with t mp p r c a show ?thesis by blast
qed

section \<open>The largest region of a name gives the centroid\<close>

lemma measurements_snoc:
  "measurements gb (fs @ [f]) = measureStep gb f (measurements gb fs)"
  by (simp add: measurements_def)

lemma firstLargestI:
  assumes "fs = pre @ f # post" "getProvinceName f = provinceName"
    "\<And>g. g \<in> set pre \<Longrightarrow> getProvinceName g = provinceName \<Longrightarrow>
       featureAreaScore gb g < featureAreaScore gb f"
    "\<And>g. g \<in> set post \<Longrightarrow> getProvinceName g = provinceName \<Longrightarrow>
       featureAreaScore gb g \<le> featureAreaScore gb f"
  shows "firstLargest gb provinceName fs f"
  unfolding firstLargest_def using assms by blast

lemma measurements_kept:
  "(case measurements gb fs provinceName of
      None \<Rightarrow> provinceName \<notin> getProvinceName ` set fs
    | Some m \<Rightarrow> \<exists>f. firstLargest gb provinceName fs f \<and>
        m = \<lparr>center = featureCentroid gb f, score = featureAreaScore gb f\<rparr>)"
proof (induction fs rule: rev_induct)
  case Nil
  then show ?case by (simp add: measurements_def)
next
  case (snoc x fs)
  show ?case
  proof (cases "getProvinceName x = provinceName")
    case False
    then have same: "measurements gb (fs @ [x]) provinceName = measurements gb fs provinceName"
      by (auto simp: measurements_snoc measureStep_def Let_def split: option.splits)
    show ?thesis
    proof (cases "measurements gb fs provinceName")
      case None
      with snoc False show ?thesis by (auto simp: same)
    next
      case (Some m)
      with snoc obtain f pre post where f: "fs = pre @ f # post" "getProvinceName f = provinceName"
        "\<forall>g \<in> set pre. getProvinceName g = provinceName \<longrightarrow> featureAreaScore gb g < featureAreaScore gb f"
        "\<forall>g \<in> set post. getProvinceName g = provinceName \<longrightarrow> featureAreaScore gb g \<le> featureAreaScore gb f"
        and m: "m = \<lparr>center = featureCentroid gb f, score = featureAreaScore gb f\<rparr>"
        by (auto simp: firstLargest_def)
      have "firstLargest gb provinceName (fs @ [x]) f"
        by (rule firstLargestI [where pre = pre and post = "post @ [x]"]) (use f False in auto)
      with m Some show ?thesis by (auto simp: same)
    qed
  next
    case True
    show ?thesis
    proof (cases "measurements gb fs provinceName")
      case None
      with snoc have nin: "provinceName \<notin> getProvinceName ` set fs" by simp
      have "firstLargest gb provinceName (fs @ [x]) x"
        by (rule firstLargestI [where pre = fs and post = "[]"]) (use True nin in auto)
      with None True show ?thesis
        by (auto simp: measurements_snoc measureStep_def Let_def)
    next
      case (Some m)
      with snoc obtain f pre post where f: "fs = pre @ f # post" "getProvinceName f = provinceName"
        "\<forall>g \<in> set pre. getProvinceName g = provinceName \<longrightarrow> featureAreaScore gb g < featureAreaScore gb f"
        "\<forall>g \<in> set post. getProvinceName g = provinceName \<longrightarrow> featureAreaScore gb g \<le> featureAreaScore gb f"
        and m: "m = \<lparr>center = featureCentroid gb f, score = featureAreaScore gb f\<rparr>"
        by (auto simp: firstLargest_def)
      show ?thesis
      proof (cases "featureAreaScore gb x > featureAreaScore gb f")
        case gt: True
        have "firstLargest gb provinceName (fs @ [x]) x"
          by (rule firstLargestI [where pre = fs and post = "[]"]) (use f gt True in \<open>auto dest!: bspec\<close>)
        with Some m gt True show ?thesis
          by (auto simp: measurements_snoc measureStep_def Let_def)
      next
        case le: False
        have "firstLargest gb provinceName (fs @ [x]) f"
          by (rule firstLargestI [where pre = pre and post = "post @ [x]"]) (use f le True in auto)
        with Some m le True show ?thesis
          by (auto simp: measurements_snoc measureStep_def Let_def)
      qed
    qed
  qed
qed

text \<open>
  Claim C4: in the map from names to centroids, the entry of a name that several regions
  resolve to is the centroid of the region with the strictly greater score, the first one
  seen among equal scores. Of two regions of one name the second gives the centroid exactly
  when its score is strictly greater, so with scores 10 and 20, in either order, the centre
  is the one of the region with score 20.
\<close>

theorem provinceCentroids_keeps_largest:
  "(case provinceCentroids gb (Some data) provinceName of
      None \<Rightarrow> provinceName \<notin> getProvinceName ` set (features data)
    | Some c \<Rightarrow> \<exists>f. firstLargest gb provinceName (features data) f \<and> c = featureCentroid gb f) \<and>
   (\<forall>f1 f2. features data = [f1, f2] \<longrightarrow>
      getProvinceName f1 = provinceName \<longrightarrow> getProvinceName f2 = provinceName \<longrightarrow>
      provinceCentroids gb (Some data) provinceName =
        Some (if featureAreaScore gb f2 > featureAreaScore gb f1
              then featureCentroid gb f2 else featureCentroid gb f1))"
proof
  show "case provinceCentroids gb (Some data) provinceName of
      None \<Rightarrow> provinceName \<notin> getProvinceName ` set (features data)
    | Some c \<Rightarrow> \<exists>f. firstLargest gb provinceName (features data) f \<and> c = featureCentroid gb f"
    using measurements_kept [where gb = gb and fs = "features data" and provinceName = provinceName]
    by (auto simp: provinceCentroids_def split: option.splits)
next
  show "\<forall>f1 f2. features data = [f1, f2] \<longrightarrow>
      getProvinceName f1 = provinceName \<longrightarrow> getProvinceName f2 = provinceName \<longrightarrow>
      provinceCentroids gb (Some data) provinceName =
        Some (if featureAreaScore gb f2 > featureAreaScore gb f1
              then featureCentroid gb f2 else featureCentroid gb f1)"
    by (simp add: provinceCentroids_def measurements_def measureStep_def Let_def)
qed

lemma corner_measures:
  "featureAreaScore corner_bounds region_X_small = 10"
  "featureAreaScore corner_bounds region_X_large = 20"
  "featureCentroid corner_bounds region_X_small = (1, 2.5)"
  "featureCentroid corner_bounds region_X_large = (2, 2.5)"
  "getProvinceName region_X_small = ''X''"
  "getProvinceName region_X_large = ''X''"
  by (simp_all add: featureAreaScore_def featureCentroid_def getCenter_def corner_bounds_def
      region_X_small_def region_X_large_def named_def getProvinceName_def getRawProvinceName_def
      getStringProperty_def)

text \<open>Two regions named \<open>X\<close> with scores 10 and 20, in both orders, and a tie.\<close>

theorem provinceCentroids_keeps_largest_witness:
  "getProvinceName region_X_small = ''X'' \<and> getProvinceName region_X_large = ''X'' \<and>
   featureAreaScore corner_bounds region_X_small = 10 \<and>
   featureAreaScore corner_bounds region_X_large = 20 \<and>
   featureCentroid corner_bounds region_X_large = (2, 2.5) \<and>
   provinceCentroids corner_bounds (Some \<lparr>features = [region_X_small, region_X_large]\<rparr>) ''X''
     = Some (2, 2.5) \<and>
   provinceCentroids corner_bounds (Some \<lparr>features = [region_X_large, region_X_small]\<rparr>) ''X''
     = Some (2, 2.5) \<and>
   provinceCentroids corner_bounds (Some \<lparr>features = [region_X_small, region_X_small]\<rparr>) ''X''
     = Some (1, 2.5)"
  using provinceCentroids_keeps_largest
      [where gb = corner_bounds and data = "\<lparr>features = [region_X_small, region_X_large]\<rparr>"
         and provinceName = "''X''"]
    provinceCentroids_keeps_largest
      [where gb = corner_bounds and data = "\<lparr>features = [region_X_large, region_X_small]\<rparr>"
         and provinceName = "''X''"]
    provinceCentroids_keeps_largest
      [where gb = corner_bounds and data = "\<lparr>features = [region_X_small, region_X_small]\<rparr>"
         and provinceName = "''X''"]
  by (simp add: corner_measures)

section \<open>The layout of the markers of a region\<close>

lemma length_placeProfiles [simp]: "length (placeProfiles c ps) = length ps"
  by (simp add: placeProfiles_def)










section \<open>One marker for every profile that can be placed\<close>

lemma mset_Map_set:
  "mset (concat (map snd (Map_set m k ((case map_of m k of None \<Rightarrow> [] | Some a \<Rightarrow> a) @ [p])))) =
   mset (concat (map snd m)) + {#p#}"
  by (induction m) auto

lemma set_Map_set:
  "(k', ps) \<in> set (Map_set m k v) \<Longrightarrow> (k', ps) \<in> set m \<or> (k' = k \<and> ps = v)"
  by (induction m) (auto split: if_splits)

lemma map_of_wellGrouped:
  "wellGrouped m \<Longrightarrow> map_of m k = Some ps \<Longrightarrow> \<forall>p \<in> set ps. provName_of p = Some k \<and> k \<noteq> []"
  by (auto simp: wellGrouped_def dest!: map_of_SomeD)

lemma wellGrouped_Map_set:
  assumes w: "wellGrouped m" and v: "\<forall>q \<in> set v. provName_of q = Some k \<and> k \<noteq> []"
  shows "wellGrouped (Map_set m k v)"
  unfolding wellGrouped_def
proof (intro ballI, clarify)
  fix k' ps q
  assume e: "(k', ps) \<in> set (Map_set m k v)" and q: "q \<in> set ps"
  from set_Map_set [OF e] consider "(k', ps) \<in> set m" | "k' = k" "ps = v" by blast
  then show "provName_of q = Some k' \<and> k' \<noteq> []"
  proof cases
    case 1
    with w q show ?thesis by (auto simp: wellGrouped_def)
  next
    case 2
    with v q show ?thesis by blast
  qed
qed

lemma wellGrouped_groupStep: "wellGrouped m \<Longrightarrow> wellGrouped (groupStep p m)"
proof -
  assume w: "wellGrouped m"
  show ?thesis
  proof (cases "provName_of p")
    case None
    with w show ?thesis by (simp add: groupStep_def)
  next
    case (Some k)
    show ?thesis
    proof (cases "k = []")
      case True
      with w Some show ?thesis by (simp add: groupStep_def)
    next
      case False
      have "\<forall>q \<in> set ((case map_of m k of None \<Rightarrow> [] | Some a \<Rightarrow> a) @ [p]). provName_of q = Some k \<and> k \<noteq> []"
      proof (cases "map_of m k")
        case None
        with Some False show ?thesis by simp
      next
        case (Some a)
        from map_of_wellGrouped [OF w Some] \<open>provName_of p = Some k\<close> False Some show ?thesis by simp
      qed
      from wellGrouped_Map_set [OF w this] Some False show ?thesis
        by (simp add: groupStep_def Let_def)
    qed
  qed
qed

lemma mset_groupStep:
  "mset (concat (map snd (groupStep p m))) =
   mset (concat (map snd m)) + (if named_profile p then {#p#} else {#})"
  by (auto simp: groupStep_def named_profile_def Let_def mset_Map_set split: option.splits)

lemma profilesByProvince_fold:
  "wellGrouped m \<Longrightarrow>
   wellGrouped (fold groupStep profiles m) \<and>
   mset (concat (map snd (fold groupStep profiles m))) =
     mset (concat (map snd m)) + mset (filter named_profile profiles)"
  by (induction profiles arbitrary: m) (auto simp: wellGrouped_groupStep mset_groupStep)

lemma profilesByProvince_groups:
  "wellGrouped (profilesByProvince profiles) \<and>
   mset (concat (map snd (profilesByProvince profiles))) = mset (filter named_profile profiles)"
  using profilesByProvince_fold [of "[]" profiles]
  by (simp add: profilesByProvince_def wellGrouped_def)

lemma map_profile_placeProfiles [simp]: "map marker_profile (placeProfiles c ps) = ps"
  by (rule nth_equalityI) (simp_all add: placeProfiles_def nth_enumerate_eq)

lemma map_key_placeProfiles [simp]: "map key (placeProfiles c ps) = map profile_id ps"
  by (rule nth_equalityI) (simp_all add: placeProfiles_def nth_enumerate_eq)

lemma markersOf_profiles:
  "wellGrouped m \<Longrightarrow>
     map marker_profile (markersOf centroids m) = filter (placeable centroids) (concat (map snd m))"
proof (induction m)
  case Nil
  then show ?case by simp
next
  case (Cons e m)
  obtain k ps where e: "e = (k, ps)" by (cases e)
  from Cons.prems have w: "wellGrouped m" and g: "\<forall>p \<in> set ps. provName_of p = Some k \<and> k \<noteq> []"
    by (auto simp: wellGrouped_def e)
  show ?case
  proof (cases "centroids k")
    case None
    with g have "filter (placeable centroids) ps = []"
      by (auto simp: placeable_def filter_empty_conv)
    with None Cons.IH [OF w] show ?thesis by (simp add: e)
  next
    case (Some c)
    with g have "filter (placeable centroids) ps = ps"
      by (auto simp: placeable_def filter_id_conv)
    with Some Cons.IH [OF w] show ?thesis by (simp add: e)
  qed
qed

lemma key_placeProfiles:
  "x \<in> set (placeProfiles c ps) \<Longrightarrow> key x = profile_id (marker_profile x)"
  by (auto simp: placeProfiles_def)

lemma markersOf_keys: "map key (markersOf centroids m) = map profile_id (map marker_profile (markersOf centroids m))"
  by (induction centroids m rule: markersOf.induct) (auto simp: key_placeProfiles split: option.splits)

lemma placeable_named: "placeable centroids p \<Longrightarrow> named_profile p"
  by (auto simp: placeable_def named_profile_def split: option.splits)

text \<open>
  Claim C10: the markers are exactly one per profile whose province name is present, not
  empty, and a key of the centroid map, and there are no others; a profile without a
  province record, with an empty province name or with a province name that has no
  centroid has no marker. The marker of a profile carries the profile's identifier as its key.
\<close>

theorem markers_of_placeable_profiles:
  "mset (map marker_profile (avatarMarkers gb profiles geoData)) =
     mset (filter (placeable (provinceCentroids gb geoData)) profiles) \<and>
   map key (avatarMarkers gb profiles geoData) =
     map profile_id (map marker_profile (avatarMarkers gb profiles geoData)) \<and>
   (\<forall>p. provincias p = None \<or> map_option nombre (provincias p) = Some [] \<or>
        (\<exists>n. map_option nombre (provincias p) = Some n \<and> provinceCentroids gb geoData n = None) \<longrightarrow>
        p \<notin> set (map marker_profile (avatarMarkers gb profiles geoData)))"
proof -
  let ?c = "provinceCentroids gb geoData"
  from profilesByProvince_groups [of profiles]
  have w: "wellGrouped (profilesByProvince profiles)"
    and m: "mset (concat (map snd (profilesByProvince profiles))) = mset (filter named_profile profiles)"
    by auto
  have "mset (map marker_profile (avatarMarkers gb profiles geoData)) =
      filter_mset (placeable ?c) (mset (concat (map snd (profilesByProvince profiles))))"
    by (simp add: avatarMarkers_def markersOf_profiles [OF w] del: mset_concat)
  also have "\<dots> = mset (filter (\<lambda>p. named_profile p \<and> placeable ?c p) profiles)"
    by (simp add: m filter_filter_mset)
  also have "(\<lambda>p. named_profile p \<and> placeable ?c p) = placeable ?c"
    by (auto dest: placeable_named)
  finally have a: "mset (map marker_profile (avatarMarkers gb profiles geoData)) =
     mset (filter (placeable ?c) profiles)" .
  have b: "map key (avatarMarkers gb profiles geoData) =
     map profile_id (map marker_profile (avatarMarkers gb profiles geoData))"
    unfolding avatarMarkers_def by (rule markersOf_keys)
  have c: "p \<notin> set (map marker_profile (avatarMarkers gb profiles geoData))"
    if "provincias p = None \<or> map_option nombre (provincias p) = Some [] \<or>
        (\<exists>n. map_option nombre (provincias p) = Some n \<and> ?c n = None)" for p
  proof -
    from that have "\<not> placeable ?c p"
      by (auto simp: placeable_def provName_of_def split: option.splits)
    moreover have "set (map marker_profile (avatarMarkers gb profiles geoData)) =
        set (filter (placeable ?c) profiles)"
      using a by (rule mset_eq_setD)
    ultimately show ?thesis by (simp del: set_map)
  qed
  from a b c show ?thesis by blast
qed

lemma madrid_centroids:
  "provinceCentroids corner_bounds (Some madrid_data) =
     (\<lambda>n. if n = ''Madrid'' then Some (40.5, - 3.5) else None)"
  by (rule ext)
    (simp add: provinceCentroids_def madrid_data_def measurements_def measureStep_def Let_def
      featureCentroid_def featureAreaScore_def getCenter_def corner_bounds_def named_def
      getProvinceName_def getRawProvinceName_def getStringProperty_def)

lemma mixed_groups:
  "profilesByProvince mixed_profiles =
     [(''Madrid'', [profile_in ''u1'' ''Madrid'', profile_in ''u5'' ''Madrid'']),
      (''Atlantis'', [profile_in ''u4'' ''Atlantis''])]"
  by (simp add: profilesByProvince_def mixed_profiles_def groupStep_def provName_of_def
      profile_in_def Let_def)

lemma mixed_markers:
  "avatarMarkers corner_bounds mixed_profiles (Some madrid_data) =
     [\<lparr>key = ''u1'', position = (40.69, - 3.5), marker_profile = profile_in ''u1'' ''Madrid''\<rparr>,
      \<lparr>key = ''u5'', position = (40.31, - 3.5), marker_profile = profile_in ''u5'' ''Madrid''\<rparr>]"
  by (simp add: avatarMarkers_def mixed_groups madrid_centroids placeProfiles_def
      markerPosition_def Let_def enumerate_eq_zip upt_rec) (simp add: profile_in_def)

text \<open>
  Five profiles: two in Madrid, one without a province record, one with an empty province
  name, one in a province without a centroid.
\<close>

theorem markers_of_placeable_profiles_witness:
  "provincias \<lparr>profile_id = ''u2'', provincias = None\<rparr> = None \<and>
   \<lparr>profile_id = ''u2'', provincias = None\<rparr>
     \<notin> set (map marker_profile (avatarMarkers corner_bounds mixed_profiles (Some madrid_data))) \<and>
   map_option nombre (provincias (profile_in ''u3'' [])) = Some [] \<and>
   profile_in ''u3'' []
     \<notin> set (map marker_profile (avatarMarkers corner_bounds mixed_profiles (Some madrid_data))) \<and>
   provinceCentroids corner_bounds (Some madrid_data) ''Atlantis'' = None \<and>
   profile_in ''u4'' ''Atlantis''
     \<notin> set (map marker_profile (avatarMarkers corner_bounds mixed_profiles (Some madrid_data))) \<and>
   mset (map marker_profile (avatarMarkers corner_bounds mixed_profiles (Some madrid_data))) =
     {#profile_in ''u1'' ''Madrid'', profile_in ''u5'' ''Madrid''#} \<and>
   map key (avatarMarkers corner_bounds mixed_profiles (Some madrid_data)) = [''u1'', ''u5'']"
proof -
  note t = markers_of_placeable_profiles [of corner_bounds mixed_profiles "Some madrid_data"]
  have u2: "provincias \<lparr>profile_id = ''u2'', provincias = None\<rparr> = None" by simp
  have u3: "map_option nombre (provincias (profile_in ''u3'' [])) = Some []"
    by (simp add: profile_in_def)
  have u4: "map_option nombre (provincias (profile_in ''u4'' ''Atlantis'')) = Some ''Atlantis''"
    "provinceCentroids corner_bounds (Some madrid_data) ''Atlantis'' = None"
    by (simp_all add: profile_in_def madrid_centroids)
  from t u2 have n2: "\<lparr>profile_id = ''u2'', provincias = None\<rparr>
     \<notin> set (map marker_profile (avatarMarkers corner_bounds mixed_profiles (Some madrid_data)))"
    by blast
  from t u3 have n3: "profile_in ''u3'' []
     \<notin> set (map marker_profile (avatarMarkers corner_bounds mixed_profiles (Some madrid_data)))"
    by blast
  from t u4 have n4: "profile_in ''u4'' ''Atlantis''
     \<notin> set (map marker_profile (avatarMarkers corner_bounds mixed_profiles (Some madrid_data)))"
    by blast
  have m: "mset (map marker_profile (avatarMarkers corner_bounds mixed_profiles (Some madrid_data))) =
     {#profile_in ''u1'' ''Madrid'', profile_in ''u5'' ''Madrid''#}"
    by (simp add: mixed_markers)
  have k: "map key (avatarMarkers corner_bounds mixed_profiles (Some madrid_data)) = [''u1'', ''u5'']"
    by (simp add: mixed_markers)
  from u2 n2 u3 n3 u4(2) n4 m k show ?thesis by blast
qed

section \<open>The style a region layer shows\<close>












end
